theory Spec2Isabelle
  imports Main
begin

section \<open>Data model\<close>

text \<open>
  The handlers of the repository are request handlers over a document database. An
  ObjectId is modelled as a natural number (only its identity is used: the handlers
  compare ids through \<open>toString()\<close>), a collection as the list of its documents in
  storage order, a Mongoose schema as a record with the schema's paths, timestamps as
  natural numbers and the schema's Number paths as integers.
\<close>

type_synonym oid = nat

text \<open>\<open>role\<close> of models/User: enum ['student', 'teacher', 'admin'].\<close>

datatype role = Student | Teacher | Admin

text \<open>UserSchema (the paths the handlers below read).\<close>

record user =
  user_id :: oid
  user_name :: string
  user_role :: role
  user_branch :: string
  user_year :: string
  user_isApproved :: bool

text \<open>
  The JSON answer of a handler: \<open>res.status(code).json({success: true, data})\<close> is
  \<open>Success code data\<close>, \<open>res.status(code).json({success: false, error})\<close> is
  \<open>Failure code error\<close>. Where a catch block sends \<open>error.message\<close> of an
  exception thrown by Mongoose or the driver, the text is shortened to the
  exception's first words.
\<close>

datatype 'a response = Success nat 'a | Failure nat string

fun status_of :: "'a response \<Rightarrow> nat" where
  "status_of (Success c _) = c"
| "status_of (Failure c _) = c"

text \<open>\<open>Model.findById(id)\<close>: the first document with that \<open>_id\<close>, or null.\<close>

definition findById :: "('a \<Rightarrow> oid) \<Rightarrow> 'a list \<Rightarrow> oid \<Rightarrow> 'a option" where
  "findById ident docs i = find (\<lambda>d. ident d = i) docs"

text \<open>\<open>Model.findOne(query)\<close>: the first document the query selects, or null.\<close>

definition findOne :: "('a \<Rightarrow> bool) \<Rightarrow> 'a list \<Rightarrow> 'a option" where
  "findOne query docs = find query docs"

text \<open>\<open>deleteOne\<close>, \<open>findByIdAndDelete\<close>, \<open>doc.remove()\<close>: the first document selected goes.\<close>

fun deleteOne :: "('a \<Rightarrow> bool) \<Rightarrow> 'a list \<Rightarrow> 'a list" where
  "deleteOne query [] = []"
| "deleteOne query (d # ds) = (if query d then ds else d # deleteOne query ds)"

text \<open>\<open>updateOne\<close>, \<open>findByIdAndUpdate\<close>, \<open>doc.save()\<close>: the first document selected is changed.\<close>

fun updateOne :: "('a \<Rightarrow> bool) \<Rightarrow> ('a \<Rightarrow> 'a) \<Rightarrow> 'a list \<Rightarrow> 'a list" where
  "updateOne query f [] = []"
| "updateOne query f (d # ds) = (if query d then f d # ds else d # updateOne query f ds)"

text \<open>A value of the request body that JavaScript treats as false: absent, or the empty string.\<close>

definition falsy_str :: "string option \<Rightarrow> bool" where
  "falsy_str x = (x = None \<or> x = Some [])"

text \<open>\<open>a || b\<close> on an optional number: \<open>b\<close> when \<open>a\<close> is absent or 0.\<close>

definition num_or :: "int option \<Rightarrow> int \<Rightarrow> int" where
  "num_or a b = (case a of None \<Rightarrow> b | Some n \<Rightarrow> if n = 0 then b else n)"

text \<open>
  A value of the JSON or url-encoded request body, as far as the handlers below test
  and store it: absent, null, a number, a string or a boolean. Numbers are integers
  here.
\<close>

datatype jsval = Undefined | Null | Num int | Str string | Bool bool

text \<open>JavaScript's truthiness: undefined, null, 0, '' and false are falsy.\<close>

fun truthy :: "jsval \<Rightarrow> bool" where
  "truthy Undefined = False"
| "truthy Null = False"
| "truthy (Num k) = (k \<noteq> 0)"
| "truthy (Str s) = (s \<noteq> [])"
| "truthy (Bool b) = b"

text \<open>
  What a Number path of a schema holds after \<open>path = x || n\<close> with \<open>n\<close> a number:
  \<open>n\<close> when \<open>x\<close> is falsy; otherwise \<open>x\<close> cast to a Number, which is \<open>x\<close> itself
  for a number, 1 for \<open>true\<close> and \<open>Number(s)\<close> for a string \<open>s\<close>. \<open>Number\<close> on
  strings belongs to the language and is a parameter: \<open>None\<close> when the result is NaN,
  and then the cast fails and \<open>create\<close> or \<open>save\<close> throws (the result here is
  \<open>None\<close>).
\<close>

fun metric_or :: "(string \<Rightarrow> int option) \<Rightarrow> jsval \<Rightarrow> int \<Rightarrow> int option" where
  "metric_or Number_str Undefined n = Some n"
| "metric_or Number_str Null n = Some n"
| "metric_or Number_str (Num k) n = Some (if k = 0 then n else k)"
| "metric_or Number_str (Str s) n = (if s = [] then Some n else Number_str s)"
| "metric_or Number_str (Bool b) n = Some (if b then 1 else n)"

text \<open>VideoSchema (models/Video.js).\<close>

record video =
  video_id :: oid
  video_title :: string
  video_branch :: string
  video_year :: string
  video_teacher :: oid
  video_specialAccess :: "oid list"
  video_views :: nat

text \<open>
  \<open>video.isApproved\<close>, which toggleLike and createNote read: VideoSchema declares
  no path \<open>isApproved\<close>, so on every document the read answers undefined, which is
  falsy.
\<close>

definition video_isApproved :: "video \<Rightarrow> bool" where
  "video_isApproved v = False"

text \<open>LikeSchema, with the unique index on (video, user).\<close>

record like =
  like_id :: oid
  like_video :: oid
  like_user :: oid

text \<open>NotificationSchema.\<close>

record notification =
  notification_id :: oid
  notification_recipient :: oid
  notification_type :: string
  notification_title :: string
  notification_message :: string
  notification_isRead :: bool

text \<open>VideoViewSchema, with the unique index on (video, user).\<close>

record videoView =
  videoView_id :: oid
  videoView_video :: oid
  videoView_user :: oid
  videoView_watchedAt :: nat
  videoView_watchTime :: int
  videoView_completionPercentage :: int
  videoView_lastPosition :: int

text \<open>CommentSchema; \<open>parentComment\<close> null (\<open>None\<close>) is a top-level comment.\<close>

record comment =
  comment_id :: oid
  comment_content :: string
  comment_user :: oid
  comment_video :: oid
  comment_parentComment :: "oid option"

text \<open>ReportSchema, with the unique index on (comment, user).\<close>

record report =
  report_id :: oid
  report_comment :: oid
  report_user :: oid
  report_reason :: string
  report_details :: "string option"
  report_status :: string

text \<open>NoteSchema.\<close>

record noteDoc =
  note_id :: oid
  note_title :: string
  note_content :: string
  note_student :: oid
  note_video :: "oid option"
  note_timestamp :: int
  note_updatedAt :: nat

text \<open>An attachment of a notice, as stored after the upload.\<close>

record attachment =
  attachment_filename :: string
  attachment_url :: string
  attachment_size :: nat

text \<open>
  What createNotifications reads as \<open>notice.targetAudience\<close>: two optional lists.
\<close>

record targetAudience =
  targetAudience_branches :: "string list option"
  targetAudience_years :: "string list option"

text \<open>
  NoticeSchema (models/Notice.js). \<open>targetAudience\<close> is read by createNotifications
  although the schema declares no such path: it is \<open>None\<close> on every document that
  \<open>Notice.create\<close> makes.
\<close>

record notice =
  notice_id :: oid
  notice_title :: string
  notice_content :: string
  notice_category :: string
  notice_branch :: string
  notice_year :: string
  notice_priority :: string
  notice_expiration_type :: string
  notice_expiration_date :: "nat option"
  notice_expiration_duration :: "string option"
  notice_attachments :: "attachment list"
  notice_teacher :: oid
  notice_isActive :: bool
  notice_targetAudience :: "targetAudience option"

text \<open>
  The database: one list per collection, and the next ObjectId the driver hands out.
\<close>

record db =
  users :: "user list"
  videos :: "video list"
  likes :: "like list"
  notifications :: "notification list"
  videoViews :: "videoView list"
  comments :: "comment list"
  reports :: "report list"
  noteDocs :: "noteDoc list"
  notices :: "notice list"
  nextId :: oid

text \<open>The database with every collection empty.\<close>

definition empty_db :: db where
  "empty_db = \<lparr>users = [], videos = [], likes = [], notifications = [], videoViews = [],
     comments = [], reports = [], noteDocs = [], notices = [], nextId = 0\<rparr>"

section \<open>middleware/auth.js\<close>

text \<open>\<open>String.prototype.startsWith\<close>.\<close>

fun startsWith :: "string \<Rightarrow> string \<Rightarrow> bool" where
  "startsWith s [] = True"
| "startsWith [] (p # ps) = False"
| "startsWith (c # cs) (p # ps) = (c = p \<and> startsWith cs ps)"

text \<open>\<open>s.split(' ')\<close>: the pieces of \<open>s\<close> between single spaces, empty pieces kept.\<close>

fun split_space :: "string \<Rightarrow> string list" where
  "split_space [] = [[]]"
| "split_space (c # cs) =
     (if c = CHR '' '' then [] # split_space cs
      else (case split_space cs of
              [] \<Rightarrow> [[c]]
            | w # ws \<Rightarrow> (c # w) # ws))"

text \<open>
  The token of \<open>protect\<close>: set from \<open>authorization.split(' ')[1]\<close> when the header
  is present and starts with 'Bearer', undefined (\<open>None\<close>) otherwise.
\<close>

definition bearer_token :: "string option \<Rightarrow> string option" where
  "bearer_token authorization =
     (case authorization of
        None \<Rightarrow> None
      | Some h \<Rightarrow>
          if h \<noteq> [] \<and> startsWith h ''Bearer''
          then (case split_space h of
                  _ # t # _ \<Rightarrow> Some t
                | _ \<Rightarrow> None)
          else None)"

text \<open>
  What a middleware does with a request: answer it (\<open>Reject code error\<close>) or call
  \<open>next()\<close> with \<open>req.user\<close> set (\<open>Next user\<close>).
\<close>

datatype 'a middleware = Reject nat string | Next 'a

text \<open>
  \<open>protect\<close>. \<open>jwt.verify(token, process.env.JWT_SECRET)\<close> belongs to the
  jsonwebtoken library and is a parameter: \<open>None\<close> when it throws (bad signature,
  expired), \<open>Some i\<close> when it returns a payload whose \<open>id\<close> is \<open>i\<close>. The catch
  block answers 401.
\<close>

definition protect ::
  "(string \<Rightarrow> oid option) \<Rightarrow> db \<Rightarrow> string option \<Rightarrow> user middleware" where
  "protect jwt_verify d authorization =
     (case bearer_token authorization of
        None \<Rightarrow> Reject 401 ''Not authorized to access this route''
      | Some token \<Rightarrow>
          if token = [] then Reject 401 ''Not authorized to access this route''
          else (case jwt_verify token of
                  None \<Rightarrow> Reject 401 ''Not authorized to access this route''
                | Some decoded_id \<Rightarrow>
                    (case findById user_id (users d) decoded_id of
                       None \<Rightarrow> Reject 401 ''User not found''
                     | Some u \<Rightarrow>
                         if \<not> user_isApproved u
                         then Reject 403 ''Your account is pending approval. Please wait for admin approval.''
                         else Next u)))"

fun role_name :: "role \<Rightarrow> string" where
  "role_name Student = ''student''"
| "role_name Teacher = ''teacher''"
| "role_name Admin = ''admin''"

text \<open>\<open>authorize(...roles)\<close>, run after \<open>protect\<close> on the user it set.\<close>

definition authorize :: "role list \<Rightarrow> user \<Rightarrow> user middleware" where
  "authorize roles u =
     (if user_role u \<notin> set roles
      then Reject 403 (''User role '' @ role_name (user_role u) @
                       '' is not authorized to access this route'')
      else Next u)"

section \<open>controllers/likeController.js (toggleLike)\<close>

text \<open>\<open>String.prototype.includes\<close>: the argument occurs as a substring.\<close>

fun includes_str :: "string \<Rightarrow> string \<Rightarrow> bool" where
  "includes_str [] t = (t = [])"
| "includes_str (c # cs) t = (startsWith (c # cs) t \<or> includes_str cs t)"

text \<open>
  The student access check of toggleLike (and of getLikes). \<open>video.branch\<close> and
  \<open>video.year\<close> are Strings, so \<open>includes\<close> is the substring test;
  \<open>video.specialAccess\<close> is an array of ObjectIds, so \<open>includes\<close> is membership.
  \<open>&&\<close> binds tighter than \<open>||\<close>.
\<close>

definition toggleLike_hasAccess :: "video \<Rightarrow> user \<Rightarrow> bool" where
  "toggleLike_hasAccess v u =
     ((video_isApproved v \<and>
       (includes_str (video_branch v) (user_branch u) \<and>
        includes_str (video_year v) (user_year u))) \<or>
      user_id u \<in> set (video_specialAccess v))"

text \<open>
  \<open>Like.create\<close>: the unique index on (video, user) refuses a second row of the
  same pair (\<open>None\<close>: the create throws a duplicate-key error).
\<close>

definition Like_create :: "db \<Rightarrow> oid \<Rightarrow> oid \<Rightarrow> db option" where
  "Like_create d v u =
     (if list_ex (\<lambda>l. like_video l = v \<and> like_user l = u) (likes d) then None
      else Some (d\<lparr>likes := likes d @ [\<lparr>like_id = nextId d, like_video = v, like_user = u\<rparr>],
                   nextId := nextId d + 1\<rparr>))"

text \<open>The enum of NotificationSchema's \<open>type\<close> path.\<close>

definition notification_types :: "string list" where
  "notification_types =
     [''video_comment'', ''video_like'', ''video_view'', ''notice_posted'',
      ''notice_updated'', ''playlist_updated'', ''system_announcement'']"

text \<open>
  \<open>Notification.create({recipient, sender, type, title, message, data})\<close>: the
  document is validated against the schema before it is stored; \<open>title\<close> and
  \<open>message\<close> are required (a required String may not be empty) and \<open>type\<close> must
  be one of the enum. \<open>None\<close>: the create throws a ValidationError. \<open>sender\<close> is
  not a path of the schema and is dropped.
\<close>

definition Notification_create :: "db \<Rightarrow> oid \<Rightarrow> string \<Rightarrow> string \<Rightarrow> string \<Rightarrow> db option" where
  "Notification_create d recipient type title message =
     (if type \<in> set notification_types \<and> title \<noteq> [] \<and> message \<noteq> []
      then Some (d\<lparr>notifications := notifications d @
                     [\<lparr>notification_id = nextId d, notification_recipient = recipient,
                       notification_type = type, notification_title = title,
                       notification_message = message, notification_isRead = False\<rparr>],
                   nextId := nextId d + 1\<rparr>)
      else None)"

text \<open>
  \<open>toggleLike\<close> of the like controller (its comment names the route
  PUT /api/videos/:id/like, but no router of the repository imports it): \<open>u\<close> is
  \<open>req.user\<close>, \<open>vid\<close> is \<open>req.params.id\<close>. The answer's data is the \<open>liked\<close> flag. Every exception
  inside the handler reaches its one catch block, which answers 400 with the
  exception's message; what was written before the exception stays written.
\<close>

definition toggleLike :: "db \<Rightarrow> user \<Rightarrow> oid \<Rightarrow> db \<times> bool response" where
  "toggleLike d u vid =
     (case findById video_id (videos d) vid of
        None \<Rightarrow> (d, Failure 404 ''Video not found'')
      | Some v \<Rightarrow>
          if user_role u = Student \<and> \<not> toggleLike_hasAccess v u
          then (d, Failure 403 ''You do not have access to this video'')
          else
            (case findOne (\<lambda>l. like_video l = vid \<and> like_user l = user_id u) (likes d) of
               Some existingLike \<Rightarrow>
                 (d\<lparr>likes := deleteOne (\<lambda>l. like_id l = like_id existingLike) (likes d)\<rparr>,
                  Success 200 False)
             | None \<Rightarrow>
                 (case Like_create d vid (user_id u) of
                    None \<Rightarrow> (d, Failure 400 ''E11000 duplicate key error'')
                  | Some d1 \<Rightarrow>
                      if video_teacher v \<noteq> user_id u
                      then (case Notification_create d1 (video_teacher v) ''like'' ''New Like''
                                   (user_name u @ '' liked your video \"'' @ video_title v @ ''\"'') of
                              None \<Rightarrow> (d1, Failure 400 ''Notification validation failed'')
                            | Some d2 \<Rightarrow> (d2, Success 200 True))
                      else (d1, Success 200 True))))"

section \<open>controllers/videoController.js (getVideo, likeVideo)\<close>

text \<open>What getVideo sends: the video, its number of likes, and whether the user liked it.\<close>

record videoData =
  videoData_video :: video
  videoData_likes :: nat
  videoData_isLiked :: "bool option"

text \<open>
  The student access check of getVideo: \<open>String(video.branch) === String(req.user.branch)\<close>,
  the same for the year, and \<open>specialAccess.some(id => id.toString() === req.user._id.toString())\<close>.
\<close>

definition getVideo_hasAccess :: "video \<Rightarrow> user \<Rightarrow> bool" where
  "getVideo_hasAccess v u =
     (let branchMatch = (video_branch v = user_branch u);
          yearMatch = (video_year v = user_year u);
          hasSpecialAccess = list_ex (\<lambda>i. i = user_id u) (video_specialAccess v)
      in (branchMatch \<and> yearMatch) \<or> hasSpecialAccess)"

text \<open>
  \<open>getVideo\<close> (GET /api/videos/:id): \<open>req_user\<close> is \<open>req.user\<close>, absent on the
  public route. The handler only reads.
\<close>

definition getVideo :: "db \<Rightarrow> user option \<Rightarrow> oid \<Rightarrow> videoData response" where
  "getVideo d req_user vid =
     (let likesCount = length (filter (\<lambda>l. like_video l = vid) (likes d))
      in case findById video_id (videos d) vid of
           None \<Rightarrow> Failure 404 ''Video not found''
         | Some v \<Rightarrow>
             (case req_user of
                None \<Rightarrow>
                  Success 200 \<lparr>videoData_video = v, videoData_likes = likesCount,
                               videoData_isLiked = None\<rparr>
              | Some u \<Rightarrow>
                  if user_role u = Student \<and> \<not> getVideo_hasAccess v u
                  then Failure 403 ''You do not have access to this video''
                  else
                    Success 200 \<lparr>videoData_video = v, videoData_likes = likesCount,
                      videoData_isLiked =
                        Some (findOne (\<lambda>l. like_video l = vid \<and> like_user l = user_id u) (likes d)
                              \<noteq> None)\<rparr>))"

text \<open>
  The two routers of the repository that mount getVideo at GET /:id. The first (the
  one that also mounts likeVideo at PUT /:id/like) has \<open>router.get('/:id', getVideo)\<close>
  above \<open>router.use(protect)\<close>: no middleware sets \<open>req.user\<close>, whatever the
  Authorization header. The second has \<open>router.use(protect)\<close> first.
\<close>

definition get_video_public :: "db \<Rightarrow> string option \<Rightarrow> oid \<Rightarrow> videoData response" where
  "get_video_public d authorization vid = getVideo d None vid"


text \<open>
  \<open>likeVideo\<close> of the video controller, the handler that the video router mounts at
  PUT /:id/like below \<open>router.use(protect)\<close>: the toggle, with no access check, and
  with the notification inside its own try/catch ("notification is not critical"), so
  a failed notification is logged and the answer is still \<open>{liked}\<close>.
\<close>

definition likeVideo :: "db \<Rightarrow> user \<Rightarrow> oid \<Rightarrow> db \<times> bool response" where
  "likeVideo d u vid =
     (case findById video_id (videos d) vid of
        None \<Rightarrow> (d, Failure 404 ''Video not found'')
      | Some v \<Rightarrow>
          (case findOne (\<lambda>l. like_video l = vid \<and> like_user l = user_id u) (likes d) of
             Some existingLike \<Rightarrow>
               (d\<lparr>likes := deleteOne (\<lambda>l. like_id l = like_id existingLike) (likes d)\<rparr>,
                Success 200 False)
           | None \<Rightarrow>
               (case Like_create d vid (user_id u) of
                  None \<Rightarrow> (d, Failure 500 ''Failed to like video'')
                | Some d1 \<Rightarrow>
                    if video_teacher v \<noteq> user_id u
                    then (case Notification_create d1 (video_teacher v) ''like'' ''New Like''
                                 (user_name u @ '' liked your video \"'' @ video_title v @ ''\"'') of
                            None \<Rightarrow> (d1, Success 200 True)
                          | Some d2 \<Rightarrow> (d2, Success 200 True))
                    else (d1, Success 200 True))))"

section \<open>controllers/noteController.js (createNote)\<close>

text \<open>
  The access check of createNote, as written: the cohort test, the allow-list test
  and the literal \<open>true\<close>, joined by \<open>||\<close>.
\<close>

definition createNote_hasAccess :: "video \<Rightarrow> user \<Rightarrow> bool" where
  "createNote_hasAccess v u =
     ((video_isApproved v \<and>
       ((video_branch v = user_branch u) \<and> (video_year v = user_year u))) \<or>
      (user_id u \<in> set (video_specialAccess v)) \<or>
      True)"

text \<open>
  \<open>Note.create\<close>: \<open>content\<close> is required (absent, it takes the default '' and the
  required validator refuses the empty string); \<open>title\<close> defaults to
  'Untitled Note' and is required only without a video. \<open>None\<close>: ValidationError.
\<close>

definition Note_create ::
  "db \<Rightarrow> string option \<Rightarrow> string option \<Rightarrow> oid \<Rightarrow> oid option \<Rightarrow> int \<Rightarrow> nat \<Rightarrow> (db \<times> noteDoc) option" where
  "Note_create d title content student vid timestamp now =
     (let t = (case title of None \<Rightarrow> ''Untitled Note'' | Some x \<Rightarrow> x);
          c = (case content of None \<Rightarrow> [] | Some x \<Rightarrow> x)
      in if c = [] \<or> (vid = None \<and> t = []) then None
         else
           (let n = \<lparr>note_id = nextId d, note_title = t, note_content = c,
                      note_student = student, note_video = vid, note_timestamp = timestamp,
                      note_updatedAt = now\<rparr>
            in Some (d\<lparr>noteDocs := noteDocs d @ [n], nextId := nextId d + 1\<rparr>, n)))"

text \<open>
  \<open>createNote\<close> (POST /api/notes). The catch block answers 400 with the
  exception's message.
\<close>

definition createNote ::
  "db \<Rightarrow> user \<Rightarrow> string option \<Rightarrow> oid option \<Rightarrow> int option \<Rightarrow> string option \<Rightarrow> nat
     \<Rightarrow> db \<times> noteDoc response" where
  "createNote d u content videoId timestamp title now =
     (case videoId of
        None \<Rightarrow>
          if falsy_str title
          then (d, Failure 400 ''Title is required for standalone notes'')
          else (case Note_create d title content (user_id u) None 0 now of
                  None \<Rightarrow> (d, Failure 400 ''Note validation failed'')
                | Some (d1, n) \<Rightarrow> (d1, Success 201 n))
      | Some vid \<Rightarrow>
          (case findById video_id (videos d) vid of
             None \<Rightarrow> (d, Failure 404 ''Video not found'')
           | Some v \<Rightarrow>
               if \<not> createNote_hasAccess v u
               then (d, Failure 403 ''You do not have access to this video'')
               else
                 (case findOne (\<lambda>n. note_student n = user_id u \<and> note_video n = Some vid)
                         (noteDocs d) of
                    Some n \<Rightarrow>
                      (case content of
                         None \<Rightarrow> (d, Failure 400 ''Note validation failed'')
                       | Some c \<Rightarrow>
                           if c = [] then (d, Failure 400 ''Note validation failed'')
                           else
                             (let n1 = n\<lparr>note_content := c,
                                         note_timestamp := num_or timestamp (note_timestamp n),
                                         note_updatedAt := now\<rparr>
                              in (d\<lparr>noteDocs :=
                                      updateOne (\<lambda>x. note_id x = note_id n) (\<lambda>_. n1) (noteDocs d)\<rparr>,
                                  Success 201 n1)))
                  | None \<Rightarrow>
                      (case Note_create d None content (user_id u) (Some vid)
                              (num_or timestamp 0) now of
                         None \<Rightarrow> (d, Failure 400 ''Note validation failed'')
                       | Some (d1, n) \<Rightarrow> (d1, Success 201 n)))))"

section \<open>controllers/viewController.js (recordView)\<close>

text \<open>
  \<open>VideoView.create\<close>: the unique index on (video, user) refuses a second row of
  the same pair (\<open>None\<close>: duplicate-key error).
\<close>

definition VideoView_create ::
  "db \<Rightarrow> oid \<Rightarrow> oid \<Rightarrow> int \<Rightarrow> int \<Rightarrow> int \<Rightarrow> nat \<Rightarrow> (db \<times> videoView) option" where
  "VideoView_create d vid uid watchTime completionPercentage lastPosition now =
     (if list_ex (\<lambda>x. videoView_video x = vid \<and> videoView_user x = uid) (videoViews d)
      then None
      else
        (let view = \<lparr>videoView_id = nextId d, videoView_video = vid, videoView_user = uid,
                      videoView_watchedAt = now, videoView_watchTime = watchTime,
                      videoView_completionPercentage = completionPercentage,
                      videoView_lastPosition = lastPosition\<rparr>
         in Some (d\<lparr>videoViews := videoViews d @ [view], nextId := nextId d + 1\<rparr>, view)))"

text \<open>
  \<open>recordView\<close> (POST /api/views). The three metrics are whatever the request body
  holds; \<open>now\<close> is \<open>Date.now()\<close>. When a metric cannot be cast to a Number,
  \<open>view.save()\<close> or \<open>VideoView.create\<close> throws before anything is written. The
  catch block answers 500.
\<close>

definition recordView ::
  "(string \<Rightarrow> int option) \<Rightarrow> db \<Rightarrow> user \<Rightarrow> oid option \<Rightarrow> jsval \<Rightarrow> jsval \<Rightarrow> jsval \<Rightarrow> nat
     \<Rightarrow> db \<times> videoView response" where
  "recordView Number_str d u videoId watchTime completionPercentage lastPosition now =
     (case videoId of
        None \<Rightarrow> (d, Failure 400 ''VideoId is required'')
      | Some vid \<Rightarrow>
          (case findOne (\<lambda>x. videoView_video x = vid \<and> videoView_user x = user_id u)
                  (videoViews d) of
             Some view \<Rightarrow>
               (case (metric_or Number_str watchTime (videoView_watchTime view),
                      metric_or Number_str completionPercentage
                        (videoView_completionPercentage view),
                      metric_or Number_str lastPosition (videoView_lastPosition view)) of
                  (Some w, Some c, Some l) \<Rightarrow>
                    (let view1 = view\<lparr>
                           videoView_watchTime := w,
                           videoView_completionPercentage := c,
                           videoView_lastPosition := l,
                           videoView_watchedAt := now\<rparr>
                     in (d\<lparr>videoViews :=
                             updateOne (\<lambda>x. videoView_id x = videoView_id view) (\<lambda>_. view1)
                               (videoViews d)\<rparr>,
                         Success 200 view1))
                | _ \<Rightarrow> (d, Failure 500 ''VideoView validation failed''))
           | None \<Rightarrow>
               (case (metric_or Number_str watchTime 0,
                      metric_or Number_str completionPercentage 0,
                      metric_or Number_str lastPosition 0) of
                  (Some w, Some c, Some l) \<Rightarrow>
                    (case VideoView_create d vid (user_id u) w c l now of
                       None \<Rightarrow> (d, Failure 500 ''E11000 duplicate key error'')
                     | Some (d1, view) \<Rightarrow>
                         (d1\<lparr>videos :=
                              updateOne (\<lambda>v. video_id v = vid)
                                (\<lambda>v. v\<lparr>video_views := video_views v + 1\<rparr>) (videos d1)\<rparr>,
                          Success 200 view))
                | _ \<Rightarrow> (d, Failure 500 ''VideoView validation failed''))))"

text \<open>The view counter of a video, when the video is stored.\<close>

definition views_of :: "db \<Rightarrow> oid \<Rightarrow> nat option" where
  "views_of d vid = map_option video_views (findById video_id (videos d) vid)"

text \<open>Whether a view row of the pair (video, user) is stored.\<close>

definition has_view :: "db \<Rightarrow> oid \<Rightarrow> oid \<Rightarrow> bool" where
  "has_view d vid uid =
     list_ex (\<lambda>x. videoView_video x = vid \<and> videoView_user x = uid) (videoViews d)"

text \<open>Whether the Number cast accepts the three metrics of a first view.\<close>

definition metrics_cast :: "(string \<Rightarrow> int option) \<Rightarrow> jsval \<Rightarrow> jsval \<Rightarrow> jsval \<Rightarrow> bool" where
  "metrics_cast Number_str w c l =
     (metric_or Number_str w 0 \<noteq> None \<and> metric_or Number_str c 0 \<noteq> None \<and>
      metric_or Number_str l 0 \<noteq> None)"

text \<open>
  A run of recordView requests on one video, one after the other: each request is
  the principal, the three metrics and the time of the call.
\<close>

fun recordView_each ::
  "(string \<Rightarrow> int option) \<Rightarrow> db \<Rightarrow> (user \<times> jsval \<times> jsval \<times> jsval \<times> nat) list \<Rightarrow> oid \<Rightarrow> db" where
  "recordView_each Number_str d [] vid = d"
| "recordView_each Number_str d ((u, w, c, l, now) # rs) vid =
     recordView_each Number_str (fst (recordView Number_str d u (Some vid) w c l now)) rs vid"

section \<open>controllers/commentController.js (deleteComment)\<close>

text \<open>
  \<open>deleteComment\<close> (DELETE /api/comments/:id). \<open>Comment.deleteMany({parentComment})\<close>
  removes every document the query selects.
\<close>

definition deleteComment :: "db \<Rightarrow> user \<Rightarrow> oid \<Rightarrow> db \<times> string response" where
  "deleteComment d u cid =
     (case findById comment_id (comments d) cid of
        None \<Rightarrow> (d, Failure 404 ''Comment not found'')
      | Some c \<Rightarrow>
          if comment_user c \<noteq> user_id u \<and> user_role u \<noteq> Admin
          then (d, Failure 403 ''Not authorized'')
          else
            (let cs1 = (if comment_parentComment c = None
                        then filter (\<lambda>x. comment_parentComment x \<noteq> Some (comment_id c))
                               (comments d)
                        else comments d);
                 cs2 = deleteOne (\<lambda>x. comment_id x = cid) cs1
             in (d\<lparr>comments := cs2\<rparr>, Success 200 ''Comment deleted'')))"

section \<open>controllers/reportController.js\<close>

text \<open>The enum of ReportSchema's \<open>reason\<close> path.\<close>

definition report_reasons :: "string list" where
  "report_reasons = [''spam'', ''harassment'', ''off-topic'', ''inappropriate'', ''other'']"

text \<open>
  \<open>Report.create\<close>: \<open>reason\<close> must be one of the enum, \<open>details\<close> is required
  when the reason is 'other', the status takes its default 'pending', and the unique
  index on (comment, user) refuses a second report of the pair. \<open>None\<close>: the create
  throws.
\<close>

definition Report_create ::
  "db \<Rightarrow> oid \<Rightarrow> oid \<Rightarrow> string \<Rightarrow> string option \<Rightarrow> (db \<times> report) option" where
  "Report_create d cid uid reason details =
     (if reason \<notin> set report_reasons then None
      else if reason = ''other'' \<and> falsy_str details then None
      else if list_ex (\<lambda>r. report_comment r = cid \<and> report_user r = uid) (reports d) then None
      else
        (let r = \<lparr>report_id = nextId d, report_comment = cid, report_user = uid,
                   report_reason = reason, report_details = details,
                   report_status = ''pending''\<rparr>
         in Some (d\<lparr>reports := reports d @ [r], nextId := nextId d + 1\<rparr>, r)))"

text \<open>\<open>createReport\<close> (POST /api/reports). The catch block answers 500.\<close>

definition createReport ::
  "db \<Rightarrow> user \<Rightarrow> oid option \<Rightarrow> string option \<Rightarrow> string option \<Rightarrow> db \<times> report response" where
  "createReport d u commentId reason details =
     (case (commentId, reason) of
        (Some cid, Some rsn) \<Rightarrow>
          if rsn = [] then (d, Failure 400 ''Please provide comment ID and reason'')
          else
            (case findById comment_id (comments d) cid of
               None \<Rightarrow> (d, Failure 404 ''Comment not found'')
             | Some c \<Rightarrow>
                 if comment_user c = user_id u
                 then (d, Failure 400 ''You cannot report your own comment'')
                 else
                   (case findOne (\<lambda>r. report_comment r = cid \<and> report_user r = user_id u)
                           (reports d) of
                      Some existingReport \<Rightarrow>
                        (d, Failure 400 ''You have already reported this comment'')
                    | None \<Rightarrow>
                        (case Report_create d cid (user_id u) rsn
                                (if rsn = ''other'' then details else None) of
                           None \<Rightarrow> (d, Failure 500 ''Report validation failed'')
                         | Some (d1, r) \<Rightarrow> (d1, Success 201 r))))
      | _ \<Rightarrow> (d, Failure 400 ''Please provide comment ID and reason''))"

text \<open>
  \<open>updateReportStatus\<close> (PUT /api/reports/:id): \<open>status\<close> is \<open>req.body.status\<close>.
\<close>

definition updateReportStatus :: "db \<Rightarrow> oid \<Rightarrow> string option \<Rightarrow> db \<times> report response" where
  "updateReportStatus d rid status =
     (case status of
        None \<Rightarrow> (d, Failure 400 ''Invalid status value'')
      | Some s \<Rightarrow>
          if s \<notin> set [''pending'', ''reviewed'', ''ignored'']
          then (d, Failure 400 ''Invalid status value'')
          else
            (case findById report_id (reports d) rid of
               None \<Rightarrow> (d, Failure 404 ''Report not found'')
             | Some r \<Rightarrow>
                 (d\<lparr>reports := updateOne (\<lambda>x. report_id x = rid)
                                  (\<lambda>x. x\<lparr>report_status := s\<rparr>) (reports d)\<rparr>,
                  Success 200 (r\<lparr>report_status := s\<rparr>))))"

text \<open>
  The route of updateReportStatus in routes/reportRoutes.js:
  \<open>router.put('/:id', protect, authorize('admin'), updateReportStatus)\<close>, for a
  request that has passed \<open>protect\<close> as user \<open>u\<close>.
\<close>

definition put_report :: "db \<Rightarrow> user \<Rightarrow> oid \<Rightarrow> string option \<Rightarrow> db \<times> report response" where
  "put_report d u rid status =
     (case authorize [Admin] u of
        Reject code e \<Rightarrow> (d, Failure code e)
      | Next _ \<Rightarrow> updateReportStatus d rid status)"

text \<open>\<open>cancelReport\<close> (DELETE /api/reports/cancel/:commentId).\<close>

definition cancelReport :: "db \<Rightarrow> user \<Rightarrow> oid \<Rightarrow> db \<times> string response" where
  "cancelReport d u commentId =
     (case findOne (\<lambda>r. report_comment r = commentId \<and> report_user r = user_id u) (reports d) of
        None \<Rightarrow> (d, Failure 404 ''Report not found'')
      | Some r \<Rightarrow>
          (d\<lparr>reports := deleteOne (\<lambda>x. report_id x = report_id r) (reports d)\<rparr>,
           Success 200 ''Report successfully canceled''))"

section \<open>controllers/noticeController.js (createNotice, createNotifications)\<close>

text \<open>The fields of the request body that createNotice reads.\<close>

record noticeBody =
  body_title :: "string option"
  body_content :: "string option"
  body_category :: "string option"
  body_branch :: "string option"
  body_year :: "string option"
  body_priority :: "string option"
  body_expirationType :: "string option"
  body_expirationDate :: "nat option"
  body_expirationDuration :: "string option"

text \<open>The string of an optional field, the empty string when it is absent.\<close>

definition str_of :: "string option \<Rightarrow> string" where
  "str_of x = (case x of None \<Rightarrow> [] | Some s \<Rightarrow> s)"

text \<open>
  \<open>trim: true\<close> of a schema path: white space goes from both ends. Strings are byte
  strings here and the white space is the six ASCII characters; the Unicode white
  space that \<open>String.prototype.trim\<close> also removes is not modelled.
\<close>

definition is_space :: "char \<Rightarrow> bool" where
  "is_space c = (c \<in> set [CHR '' '', CHR 0x09, CHR 0x0A, CHR 0x0B, CHR 0x0C, CHR 0x0D])"

definition trim :: "string \<Rightarrow> string" where
  "trim s = rev (dropWhile is_space (rev (dropWhile is_space s)))"

text \<open>
  \<open>Notice.create\<close>: the validators of NoticeSchema (required paths, maximal lengths,
  enums, and the expiration's date or duration according to its type). \<open>None\<close>: the
  create throws a ValidationError.
\<close>

definition Notice_create ::
  "db \<Rightarrow> noticeBody \<Rightarrow> oid \<Rightarrow> (db \<times> notice) option" where
  "Notice_create d b teacher =
     (let title = trim (str_of (body_title b));
          content = str_of (body_content b);
          etype = str_of (body_expirationType b);
          date = (if etype = ''date'' then body_expirationDate b else None);
          duration = (if etype = ''date'' then None else body_expirationDuration b)
      in if title \<noteq> [] \<and> length title \<le> 100 \<and>
            content \<noteq> [] \<and> length content \<le> 1000 \<and>
            str_of (body_category b) \<in> set [''General'', ''Academic'', ''Event'', ''Important'', ''Other''] \<and>
            str_of (body_branch b) \<in> set [''CSE'', ''CSE-AI'', ''CSE-SF'', ''ECE'', ''EE'', ''ME'', ''CE''] \<and>
            str_of (body_year b) \<in> set [''1st'', ''2nd'', ''3rd'', ''4th''] \<and>
            str_of (body_priority b) \<in> set [''low'', ''normal'', ''high''] \<and>
            etype \<in> set [''date'', ''duration''] \<and>
            (etype = ''date'' \<and> date \<noteq> None \<or>
             etype = ''duration'' \<and>
               str_of duration \<in> set [''3 days'', ''7 days'', ''14 days'', ''30 days'',
                                       ''3 months'', ''6 months'', ''1 year'', ''never''])
         then
           (let n = \<lparr>notice_id = nextId d, notice_title = title, notice_content = content,
                      notice_category = str_of (body_category b),
                      notice_branch = str_of (body_branch b),
                      notice_year = str_of (body_year b),
                      notice_priority = str_of (body_priority b),
                      notice_expiration_type = etype,
                      notice_expiration_date = date,
                      notice_expiration_duration = duration,
                      notice_attachments = [], notice_teacher = teacher,
                      notice_isActive = True, notice_targetAudience = None\<rparr>
            in Some (d\<lparr>notices := notices d @ [n], nextId := nextId d + 1\<rparr>, n))
         else None)"

text \<open>The uploads of a request's files: \<open>None\<close> when the upload of a file is rejected.\<close>

fun upload_all :: "attachment option list \<Rightarrow> attachment list option" where
  "upload_all [] = Some []"
| "upload_all (None # fs) = None"
| "upload_all (Some a # fs) = (case upload_all fs of None \<Rightarrow> None | Some as \<Rightarrow> Some (a # as))"

text \<open>
  \<open>createNotice\<close> (POST /api/notices): \<open>u\<close> is \<open>req.user\<close>, \<open>b\<close> the body,
  \<open>files\<close> the outcome of the upload of each of \<open>req.files\<close>. The catch block
  answers 500; a notice created before the exception stays.
\<close>

definition createNotice ::
  "db \<Rightarrow> user \<Rightarrow> noticeBody \<Rightarrow> attachment option list \<Rightarrow> db \<times> notice response" where
  "createNotice d u b files =
     (if falsy_str (body_title b) \<or> falsy_str (body_content b) \<or> falsy_str (body_category b) \<or>
         falsy_str (body_branch b) \<or> falsy_str (body_year b) \<or> falsy_str (body_priority b) \<or>
         falsy_str (body_expirationType b)
      then (d, Failure 400 ''Please provide all required fields'')
      else if body_branch b = Some ''All'' \<or> body_year b = Some ''All''
      then (d, Failure 400 ''Please select specific branch and year'')
      else
        (case Notice_create d b (user_id u) of
           None \<Rightarrow> (d, Failure 500 ''Notice validation failed'')
         | Some (d1, n) \<Rightarrow>
             if files \<noteq> []
             then (case upload_all files of
                     None \<Rightarrow> (d1, Failure 500 ''upload failed'')
                   | Some as \<Rightarrow>
                       (let n1 = n\<lparr>notice_attachments := as\<rparr>
                        in (d1\<lparr>notices := updateOne (\<lambda>x. notice_id x = notice_id n) (\<lambda>_. n1)
                                              (notices d1)\<rparr>,
                            Success 201 n1)))
             else (d1, Success 201 n)))"

text \<open>
  \<open>Notification.insertMany\<close>: every document is validated first; they are stored
  only when all are valid.
\<close>

fun Notification_insertMany :: "db \<Rightarrow> (oid \<times> string \<times> string \<times> string) list \<Rightarrow> db option" where
  "Notification_insertMany d [] = Some d"
| "Notification_insertMany d ((recipient, type, title, message) # ns) =
     (case Notification_create d recipient type title message of
        None \<Rightarrow> None
      | Some d1 \<Rightarrow> Notification_insertMany d1 ns)"

text \<open>
  \<open>createNotifications\<close>, the helper "to create notifications for a notice". No
  handler of the controller calls it. An exception inside it is logged and dropped.
\<close>

definition createNotifications :: "db \<Rightarrow> notice \<Rightarrow> db" where
  "createNotifications d n =
     (let query = (\<lambda>s. user_role s = Student \<and>
            (case notice_targetAudience n of
               None \<Rightarrow> True
             | Some ta \<Rightarrow>
                 (case targetAudience_branches ta of
                    None \<Rightarrow> True
                  | Some bs \<Rightarrow> if ''All'' \<notin> set bs then user_branch s \<in> set bs else True) \<and>
                 (case targetAudience_years ta of
                    None \<Rightarrow> True
                  | Some ys \<Rightarrow> if ''All'' \<notin> set ys then user_year s \<in> set ys else True)));
          students = filter query (users d);
          docs = map (\<lambda>s. (user_id s, ''notice_posted'', ''New Notice'', notice_title n)) students
      in case Notification_insertMany d docs of
           None \<Rightarrow> d
         | Some d1 \<Rightarrow> d1)"

section \<open>The statements of the specification\<close>


text \<open>
  The state machine of a Report in the specification's words: the only status changes
  are pending to reviewed and pending to ignored.
\<close>

definition spec_transition :: "string \<Rightarrow> string \<Rightarrow> bool" where
  "spec_transition old new =
     (old = ''pending'' \<and> (new = ''reviewed'' \<or> new = ''ignored''))"

section \<open>Authentication middleware\<close>

lemma split_space_not_Nil: "split_space s \<noteq> []"
  by (induction s) (auto split: list.splits)

lemma split_space_no_space:
  "CHR '' '' \<notin> set t \<Longrightarrow> split_space (t @ CHR '' '' # r) = t # split_space r"
  by (induction t) (auto split: list.splits)

lemma split_space_word: "CHR '' '' \<notin> set t \<Longrightarrow> split_space t = [t]"
  by (induction t) (auto split: list.splits)

lemma bearer_token_Bearer:
  assumes "CHR '' '' \<notin> set t"
  shows "bearer_token (Some (''Bearer '' @ t)) = Some t"
proof -
  have "split_space (''Bearer'' @ CHR '' '' # t) = ''Bearer'' # split_space t"
    by (rule split_space_no_space) simp
  with assms show ?thesis
    by (simp add: bearer_token_def split_space_word)
qed

text \<open>
  C10. A request whose Authorization header is \<open>Bearer t\<close>, with \<open>t\<close> a token that
  \<open>jwt.verify\<close> accepts (valid signature, not expired) for a principal that is still
  stored, is answered by the principal's current approval flag: 403 with the
  pending-approval message when the flag is false, \<open>next()\<close> with that principal when
  it is true. The flag is read from the user collection at the time of the request,
  so the same token is refused as soon as the stored flag is false.
\<close>

theorem protect_rereads_approval:
  assumes "t \<noteq> []" and "CHR '' '' \<notin> set t"
    and "jwt_verify t = Some i"
    and "findById user_id (users d) i = Some u"
  shows "protect jwt_verify d (Some (''Bearer '' @ t)) =
           (if user_isApproved u then Next u
            else Reject 403 ''Your account is pending approval. Please wait for admin approval.'')"
proof -
  have "bearer_token (Some (''Bearer '' @ t)) = Some t"
    using assms(2) by (rule bearer_token_Bearer)
  then show ?thesis
    using assms(1,3,4) unfolding protect_def by simp
qed

theorem protect_rereads_approval_witness:
  "protect (\<lambda>t. if t = ''abc'' then Some 7 else None)
     (empty_db\<lparr>users := [\<lparr>user_id = 7, user_name = ''T'', user_role = Teacher,
        user_branch = '''', user_year = '''', user_isApproved = False\<rparr>]\<rparr>)
     (Some ''Bearer abc'') =
   Reject 403 ''Your account is pending approval. Please wait for admin approval.''"
  using protect_rereads_approval [of "''abc''" "\<lambda>t. if t = ''abc'' then Some 7 else None" 7
      "empty_db\<lparr>users := [\<lparr>user_id = 7, user_name = ''T'', user_role = Teacher,
        user_branch = '''', user_year = '''', user_isApproved = False\<rparr>]\<rparr>"
      "\<lparr>user_id = 7, user_name = ''T'', user_role = Teacher, user_branch = '''',
         user_year = '''', user_isApproved = False\<rparr>"]
  by (simp add: findById_def)

section \<open>Student access to a video\<close>

lemma getVideo_student:
  assumes "findById video_id (videos d) vid = Some v" and "user_role p = Student"
  shows "status_of (getVideo d (Some p) vid) =
           (if (video_branch v = user_branch p \<and> video_year v = user_year p) \<or>
               user_id p \<in> set (video_specialAccess v)
            then 200 else 403)"
  using assms by (auto simp: getVideo_def getVideo_hasAccess_def Let_def list_ex_iff)

lemma get_video_public_open:
  assumes "findById video_id (videos d) vid = Some v"
  shows "status_of (get_video_public d authorization vid) = 200"
  using assms by (simp add: get_video_public_def getVideo_def Let_def)

lemma toggleLike_hasAccess_allow_list:
  "toggleLike_hasAccess v u = (user_id u \<in> set (video_specialAccess v))"
  by (simp add: toggleLike_hasAccess_def video_isApproved_def)


section \<open>Like and unlike\<close>

lemma toggleLike_first_call:
  assumes "findById video_id (videos d) vid = Some v"
    and "user_role u = Student \<Longrightarrow> toggleLike_hasAccess v u"
    and "\<not> list_ex (\<lambda>l. like_video l = vid \<and> like_user l = user_id u) (likes d)"
  shows "toggleLike d u vid =
           (d\<lparr>likes := likes d @ [\<lparr>like_id = nextId d, like_video = vid, like_user = user_id u\<rparr>],
               nextId := nextId d + 1\<rparr>,
            if video_teacher v \<noteq> user_id u
            then Failure 400 ''Notification validation failed''
            else Success 200 True)"
proof -
  have none: "findOne (\<lambda>l. like_video l = vid \<and> like_user l = user_id u) (likes d) = None"
    using assms(3) by (auto simp: findOne_def find_None_iff list_ex_iff)
  have bad: "''like'' \<notin> set notification_types"
    by (simp add: notification_types_def)
  show ?thesis
    using assms none bad
    by (auto simp: toggleLike_def Like_create_def Notification_create_def)
qed

lemma likeVideo_like:
  assumes "findById video_id (videos d) vid = Some v"
    and "\<not> list_ex (\<lambda>l. like_video l = vid \<and> like_user l = user_id u) (likes d)"
  shows "likeVideo d u vid =
           (d\<lparr>likes := likes d @ [\<lparr>like_id = nextId d, like_video = vid, like_user = user_id u\<rparr>],
               nextId := nextId d + 1\<rparr>,
            Success 200 True)"
proof -
  have none: "findOne (\<lambda>l. like_video l = vid \<and> like_user l = user_id u) (likes d) = None"
    using assms(2) by (auto simp: findOne_def find_None_iff list_ex_iff)
  have bad: "''like'' \<notin> set notification_types"
    by (simp add: notification_types_def)
  show ?thesis
    using assms none bad
    by (auto simp: likeVideo_def Like_create_def Notification_create_def)
qed

lemma findOne_append_new:
  assumes "\<not> list_ex q xs" and "q y"
  shows "findOne q (xs @ [y]) = Some y"
  using assms by (induction xs) (auto simp: findOne_def)

lemma deleteOne_append_new:
  assumes "\<forall>x\<in>set xs. \<not> q x" and "q y"
  shows "deleteOne q (xs @ [y]) = xs"
  using assms by (induction xs) auto

lemma likeVideo_unlike:
  assumes "findById video_id (videos d) vid = Some v"
    and "likes d = old @ [\<lparr>like_id = i, like_video = vid, like_user = user_id u\<rparr>]"
    and "\<not> list_ex (\<lambda>l. like_video l = vid \<and> like_user l = user_id u) old"
    and "i \<notin> like_id ` set old"
  shows "likeVideo d u vid = (d\<lparr>likes := old\<rparr>, Success 200 False)"
proof -
  let ?new = "\<lparr>like_id = i, like_video = vid, like_user = user_id u\<rparr>"
  have found: "findOne (\<lambda>l. like_video l = vid \<and> like_user l = user_id u) (old @ [?new]) = Some ?new"
    using assms(3) by (rule findOne_append_new) simp
  have "\<forall>x\<in>set old. \<not> like_id x = i"
    using assms(4) by blast
  then have "deleteOne (\<lambda>l. like_id l = i) (old @ [?new]) = old"
    by (rule deleteOne_append_new) simp
  then show ?thesis
    using assms(1,2) found by (simp add: likeVideo_def)
qed

text \<open>
  C3. The toggle that the video router mounts at PUT /:id/like is likeVideo. For every
  principal and every stored video, starting from a database with no Like row of the
  pair (and whose next ObjectId is not the id of a stored Like), three calls in a row
  answer \<open>{liked: true}\<close>, \<open>{liked: false}\<close>, \<open>{liked: true}\<close>, and leave one row,
  no row and one row of the pair.
\<close>

theorem likeVideo_alternates:
  assumes "findById video_id (videos d) vid = Some v"
    and "\<not> list_ex (\<lambda>l. like_video l = vid \<and> like_user l = user_id u) (likes d)"
    and "nextId d \<notin> like_id ` set (likes d)"
  shows "(let (d1, r1) = likeVideo d u vid;
              (d2, r2) = likeVideo d1 u vid;
              (d3, r3) = likeVideo d2 u vid
          in r1 = Success 200 True \<and>
             length (filter (\<lambda>l. like_video l = vid \<and> like_user l = user_id u) (likes d1)) = 1 \<and>
             r2 = Success 200 False \<and>
             length (filter (\<lambda>l. like_video l = vid \<and> like_user l = user_id u) (likes d2)) = 0 \<and>
             r3 = Success 200 True \<and>
             length (filter (\<lambda>l. like_video l = vid \<and> like_user l = user_id u) (likes d3)) = 1)"
proof -
  let ?q = "\<lambda>l. like_video l = vid \<and> like_user l = user_id u"
  let ?new = "\<lparr>like_id = nextId d, like_video = vid, like_user = user_id u\<rparr>"
  let ?d1 = "d\<lparr>likes := likes d @ [?new], nextId := nextId d + 1\<rparr>"
  let ?d2 = "?d1\<lparr>likes := likes d\<rparr>"
  let ?new3 = "\<lparr>like_id = nextId ?d2, like_video = vid, like_user = user_id u\<rparr>"
  let ?d3 = "?d2\<lparr>likes := likes ?d2 @ [?new3], nextId := nextId ?d2 + 1\<rparr>"
  have none: "filter ?q (likes d) = []"
    using assms(2) by (auto simp: list_ex_iff filter_empty_conv)
  have 1: "likeVideo d u vid = (?d1, Success 200 True)"
    using assms(1,2) by (rule likeVideo_like)
  have 2: "likeVideo ?d1 u vid = (?d2, Success 200 False)"
    by (rule likeVideo_unlike [where v = v and i = "nextId d"]) (use assms in simp_all)
  have 3: "likeVideo ?d2 u vid = (?d3, Success 200 True)"
    by (rule likeVideo_like [where v = v]) (use assms in simp_all)
  show ?thesis
    unfolding Let_def 1 2 3 prod.case using none by simp
qed

theorem likeVideo_alternates_witness:
  "(let d0 = empty_db\<lparr>videos := [\<lparr>video_id = 10, video_title = ''V'', video_branch = ''CSE'',
              video_year = ''2nd'', video_teacher = 5, video_specialAccess = [],
              video_views = 0\<rparr>]\<rparr>;
        p = \<lparr>user_id = 1, user_name = ''S'', user_role = Student, user_branch = ''CSE'',
              user_year = ''2nd'', user_isApproved = True\<rparr>;
        (d1, r1) = likeVideo d0 p 10;
        (d2, r2) = likeVideo d1 p 10;
        (d3, r3) = likeVideo d2 p 10
    in r1 = Success 200 True \<and> length (likes d1) = 1 \<and>
       r2 = Success 200 False \<and> likes d2 = [] \<and>
       r3 = Success 200 True \<and> length (likes d3) = 1)"
proof -
  let ?v = "\<lparr>video_id = 10, video_title = ''V'', video_branch = ''CSE'',
              video_year = ''2nd'', video_teacher = 5, video_specialAccess = [],
              video_views = 0\<rparr>"
  let ?d0 = "empty_db\<lparr>videos := [?v]\<rparr>"
  let ?p = "\<lparr>user_id = 1, user_name = ''S'', user_role = Student, user_branch = ''CSE'',
              user_year = ''2nd'', user_isApproved = True\<rparr>"
  have 1: "findById video_id (videos ?d0) 10 = Some ?v"
    by (simp add: findById_def)
  have 2: "\<not> list_ex (\<lambda>l. like_video l = 10 \<and> like_user l = user_id ?p) (likes ?d0)"
    by (simp add: empty_db_def)
  have 3: "nextId ?d0 \<notin> like_id ` set (likes ?d0)"
    by (simp add: empty_db_def)
  show ?thesis
    using likeVideo_alternates [OF 1 2 3]
    by (simp add: likeVideo_def findById_def findOne_def Like_create_def Notification_create_def
        notification_types_def empty_db_def)
qed

section \<open>createNote\<close>

text \<open>
  C2. In createNote the access check ends in \<open>|| true\<close>: it is true for every
  principal and every video, whatever the branch, the year, the approval flag and the
  allow-list, and no call of createNote answers 403 "You do not have access to this
  video".
\<close>

theorem createNote_access_always_true:
  "createNote_hasAccess v u \<and>
   status_of (snd (createNote d u content videoId timestamp title now)) \<noteq> 403 \<and>
   snd (createNote d u content videoId timestamp title now) \<noteq>
     Failure 403 ''You do not have access to this video''"
proof -
  have access: "\<And>x. createNote_hasAccess x u"
    by (simp add: createNote_hasAccess_def)
  have "status_of (snd (createNote d u content videoId timestamp title now)) \<noteq> 403"
    by (simp add: createNote_def access Let_def split: option.splits prod.splits)
  then show ?thesis
    using access by (cases "snd (createNote d u content videoId timestamp title now)") auto
qed

theorem createNote_access_always_true_witness:
  "createNote_hasAccess
     \<lparr>video_id = 10, video_title = ''V'', video_branch = ''CSE'', video_year = ''2nd'',
       video_teacher = 5, video_specialAccess = [], video_views = 0\<rparr>
     \<lparr>user_id = 2, user_name = ''T'', user_role = Student, user_branch = ''ECE'',
       user_year = ''1st'', user_isApproved = True\<rparr> \<and>
   status_of (snd (createNote
     (empty_db\<lparr>videos := [\<lparr>video_id = 10, video_title = ''V'', video_branch = ''CSE'',
        video_year = ''2nd'', video_teacher = 5, video_specialAccess = [], video_views = 0\<rparr>]\<rparr>)
     \<lparr>user_id = 2, user_name = ''T'', user_role = Student, user_branch = ''ECE'',
       user_year = ''1st'', user_isApproved = True\<rparr>
     (Some ''my note'') (Some 10) None None 99)) = 201"
  using createNote_access_always_true [of
      "\<lparr>video_id = 10, video_title = ''V'', video_branch = ''CSE'', video_year = ''2nd'',
        video_teacher = 5, video_specialAccess = [], video_views = 0\<rparr>"
      "\<lparr>user_id = 2, user_name = ''T'', user_role = Student, user_branch = ''ECE'',
        user_year = ''1st'', user_isApproved = True\<rparr>"]
  by (simp add: createNote_def findById_def findOne_def Note_create_def num_or_def empty_db_def Let_def)

section \<open>recordView\<close>

lemma findById_updateOne:
  assumes "\<And>x. ident (f x) = ident x"
  shows "findById ident (updateOne (\<lambda>x. ident x = i) f xs) i = map_option f (findById ident xs i)"
  using assms by (induction xs) (auto simp: findById_def)

lemma findOne_None_iff: "findOne q xs = None \<longleftrightarrow> \<not> list_ex q xs"
  by (auto simp: findOne_def find_None_iff list_ex_iff)

lemma metric_or_falsy: "\<not> truthy x \<Longrightarrow> metric_or Number_str x n = Some n"
  by (cases x) auto

lemma metrics_cast_no_string:
  assumes "\<And>s. w \<noteq> Str s" and "\<And>s. c \<noteq> Str s" and "\<And>s. l \<noteq> Str s"
  shows "metrics_cast Number_str w c l"
proof -
  have "metric_or Number_str x 0 \<noteq> None" if "\<And>s. x \<noteq> Str s" for x
    using that by (cases x) auto
  with assms show ?thesis
    by (simp add: metrics_cast_def)
qed

lemma recordView_first:
  assumes "\<not> has_view d vid (user_id u)"
    and "metric_or Number_str w 0 = Some w'"
    and "metric_or Number_str c 0 = Some c'"
    and "metric_or Number_str l 0 = Some l'"
  shows "recordView Number_str d u (Some vid) w c l now =
     (d\<lparr>videoViews := videoViews d @
           [\<lparr>videoView_id = nextId d, videoView_video = vid, videoView_user = user_id u,
             videoView_watchedAt = now, videoView_watchTime = w',
             videoView_completionPercentage = c', videoView_lastPosition = l'\<rparr>],
         nextId := nextId d + 1,
         videos := updateOne (\<lambda>v. video_id v = vid)
                     (\<lambda>v. v\<lparr>video_views := video_views v + 1\<rparr>) (videos d)\<rparr>,
      Success 200
        \<lparr>videoView_id = nextId d, videoView_video = vid, videoView_user = user_id u,
          videoView_watchedAt = now, videoView_watchTime = w',
          videoView_completionPercentage = c', videoView_lastPosition = l'\<rparr>)"
proof -
  have "findOne (\<lambda>x. videoView_video x = vid \<and> videoView_user x = user_id u) (videoViews d) = None"
    using assms(1) by (simp add: findOne_None_iff has_view_def)
  then show ?thesis
    using assms by (simp add: recordView_def VideoView_create_def has_view_def Let_def)
qed

lemma recordView_first_views:
  assumes "\<not> has_view d vid (user_id u)" and "metrics_cast Number_str w c l"
    and "views_of d vid = Some n"
  shows "views_of (fst (recordView Number_str d u (Some vid) w c l now)) vid = Some (n + 1)"
proof -
  obtain w' c' l' where
    "metric_or Number_str w 0 = Some w'" "metric_or Number_str c 0 = Some c'"
    "metric_or Number_str l 0 = Some l'"
    using assms(2) by (auto simp: metrics_cast_def)
  then show ?thesis
    using assms(3)
    by (auto simp: recordView_first [OF assms(1)] views_of_def findById_updateOne)
qed

lemma recordView_first_has_view:
  assumes "\<not> has_view d vid (user_id u)" and "metrics_cast Number_str w c l"
  shows "has_view (fst (recordView Number_str d u (Some vid) w c l now)) vid x =
           (has_view d vid x \<or> x = user_id u)"
proof -
  obtain w' c' l' where
    "metric_or Number_str w 0 = Some w'" "metric_or Number_str c 0 = Some c'"
    "metric_or Number_str l 0 = Some l'"
    using assms(2) by (auto simp: metrics_cast_def)
  then show ?thesis
    by (auto simp: recordView_first [OF assms(1)] has_view_def)
qed

lemma recordView_repeat_videos:
  assumes "has_view d vid (user_id u)"
  shows "videos (fst (recordView Number_str d u (Some vid) w c l now)) = videos d"
proof -
  obtain view where
    "findOne (\<lambda>x. videoView_video x = vid \<and> videoView_user x = user_id u) (videoViews d) = Some view"
    using assms by (cases "findOne (\<lambda>x. videoView_video x = vid \<and> videoView_user x = user_id u)
      (videoViews d)") (auto simp: findOne_None_iff has_view_def)
  then show ?thesis
    by (simp add: recordView_def Let_def split: option.splits)
qed

lemma recordView_each_counts:
  assumes "views_of d vid = Some n"
    and "distinct (map (\<lambda>r. user_id (fst r)) rs)"
    and "\<forall>r\<in>set rs. \<not> has_view d vid (user_id (fst r))"
    and "\<forall>(u, w, c, l, now)\<in>set rs. metrics_cast Number_str w c l"
  shows "views_of (recordView_each Number_str d rs vid) vid = Some (n + length rs) \<and>
         (\<forall>x. has_view d vid x \<or> x \<in> (\<lambda>r. user_id (fst r)) ` set rs
               \<longrightarrow> has_view (recordView_each Number_str d rs vid) vid x)"
  using assms
proof (induction rs arbitrary: d n)
  case Nil
  then show ?case by simp
next
  case (Cons r rs)
  obtain u w c l now where r: "r = (u, w, c, l, now)"
    by (cases r) auto
  let ?d1 = "fst (recordView Number_str d u (Some vid) w c l now)"
  have fresh: "\<not> has_view d vid (user_id u)"
    using Cons.prems(3) r by simp
  have cast: "metrics_cast Number_str w c l"
    using Cons.prems(4) r by simp
  have v1: "views_of ?d1 vid = Some (n + 1)"
    using fresh cast Cons.prems(1) by (rule recordView_first_views)
  have h1: "\<And>x. has_view ?d1 vid x = (has_view d vid x \<or> x = user_id u)"
    using fresh cast by (rule recordView_first_has_view)
  have d1: "distinct (map (\<lambda>r. user_id (fst r)) rs)"
    using Cons.prems(2) by simp
  have n1: "\<forall>r\<in>set rs. \<not> has_view ?d1 vid (user_id (fst r))"
    using Cons.prems(2,3) r by (force simp: h1)
  have c1: "\<forall>(u, w, c, l, now)\<in>set rs. metrics_cast Number_str w c l"
    using Cons.prems(4) by simp
  from Cons.IH [OF v1 d1 n1 c1] show ?case
    using r by (auto simp: h1)
qed

text \<open>
  C4. Let a video be stored, and let each of N distinct principals, none of whom has
  a view row for it, call recordView once, in any order and with any metrics that the
  Number cast accepts (numbers, booleans and absent metrics always are). Then the
  video's view counter has grown by exactly N (for N = 1: by exactly one), and a
  further call by any of these principals, with any metrics at all, leaves the counter
  where it is.
\<close>

theorem recordView_counter:
  assumes "views_of d vid = Some n"
    and "distinct (map (\<lambda>r. user_id (fst r)) rs)"
    and "\<forall>r\<in>set rs. \<not> has_view d vid (user_id (fst r))"
    and "\<forall>(u, w, c, l, now)\<in>set rs. metrics_cast Number_str w c l"
  shows "views_of (recordView_each Number_str d rs vid) vid = Some (n + length rs) \<and>
         (\<forall>r\<in>set rs. \<forall>w c l now.
            views_of (fst (recordView Number_str (recordView_each Number_str d rs vid) (fst r)
                             (Some vid) w c l now)) vid
              = Some (n + length rs))"
proof -
  note each = recordView_each_counts [OF assms]
  have "views_of (fst (recordView Number_str (recordView_each Number_str d rs vid) (fst r)
                         (Some vid) w c l now)) vid
          = Some (n + length rs)" if "r \<in> set rs" for r w c l now
  proof -
    have "has_view (recordView_each Number_str d rs vid) vid (user_id (fst r))"
      using each that by blast
    then have "videos (fst (recordView Number_str (recordView_each Number_str d rs vid) (fst r)
                              (Some vid) w c l now))
                 = videos (recordView_each Number_str d rs vid)"
      by (rule recordView_repeat_videos)
    then show ?thesis
      using each by (simp add: views_of_def)
  qed
  with each show ?thesis by blast
qed

theorem recordView_counter_witness:
  "(let v = \<lparr>video_id = 10, video_title = ''V'', video_branch = ''CSE'', video_year = ''2nd'',
              video_teacher = 5, video_specialAccess = [], video_views = 7\<rparr>;
        a = \<lparr>user_id = 1, user_name = ''A'', user_role = Student, user_branch = ''CSE'',
              user_year = ''2nd'', user_isApproved = True\<rparr>;
        b = \<lparr>user_id = 2, user_name = ''B'', user_role = Student, user_branch = ''ECE'',
              user_year = ''1st'', user_isApproved = True\<rparr>;
        d = empty_db\<lparr>videos := [v]\<rparr>;
        d2 = recordView_each (\<lambda>s. None) d
               [(a, Num 30, Undefined, Undefined, 100), (b, Undefined, Undefined, Undefined, 101)] 10
    in views_of d 10 = Some 7 \<and> views_of d2 10 = Some 9 \<and>
       views_of (fst (recordView (\<lambda>s. None) d2 a (Some 10) (Num 60) Undefined Undefined 102)) 10
         = Some 9 \<and>
       length (videoViews (fst (recordView (\<lambda>s. None) d2 a (Some 10) (Num 60) Undefined
                                  Undefined 102))) = 2)"
proof -
  let ?v = "\<lparr>video_id = 10, video_title = ''V'', video_branch = ''CSE'', video_year = ''2nd'',
              video_teacher = 5, video_specialAccess = [], video_views = 7\<rparr>"
  let ?a = "\<lparr>user_id = 1, user_name = ''A'', user_role = Student, user_branch = ''CSE'',
              user_year = ''2nd'', user_isApproved = True\<rparr>"
  let ?b = "\<lparr>user_id = 2, user_name = ''B'', user_role = Student, user_branch = ''ECE'',
              user_year = ''1st'', user_isApproved = True\<rparr>"
  let ?d = "empty_db\<lparr>videos := [?v]\<rparr>"
  let ?rs = "[(?a, Num 30, Undefined, Undefined, 100), (?b, Undefined, Undefined, Undefined, 101)]"
  let ?N = "\<lambda>s::string. None :: int option"
  have 1: "views_of ?d 10 = Some 7"
    by (simp add: views_of_def findById_def)
  have 2: "distinct (map (\<lambda>r. user_id (fst r)) ?rs)"
    by simp
  have 3: "\<forall>r\<in>set ?rs. \<not> has_view ?d 10 (user_id (fst r))"
    by (simp add: has_view_def empty_db_def)
  have 4: "\<forall>(u, w, c, l, now)\<in>set ?rs. metrics_cast ?N w c l"
    by (simp add: metrics_cast_def)
  have len: "length (videoViews (fst (recordView ?N (recordView_each ?N ?d ?rs 10) ?a (Some 10)
               (Num 60) Undefined Undefined 102))) = 2"
    by (simp add: recordView_def VideoView_create_def findOne_def Let_def empty_db_def)
  show ?thesis
    using recordView_counter [OF 1 2 3 4] 1 len
    by (simp add: Let_def)
qed

lemma findOne_updateOne_same:
  assumes "findOne q xs = Some x" and "q y"
  shows "findOne q (updateOne (\<lambda>z. ident z = ident x) (\<lambda>_. y) xs) = Some y"
  using assms by (induction xs) (auto simp: findOne_def split: if_splits)

text \<open>
  C5 (counterexample). A view row of (student 1, video 10) is stored with watchTime
  120. The request sends the watchTime zero as the string "0" (as a url-encoded body
  does); \<open>Number("0")\<close> is 0. The string is truthy, so it replaces the old value:
  recordView answers 200 and the stored watchTime is 0.
\<close>

theorem recordView_zero_string_counterexample:
  "videoViews (fst (recordView (\<lambda>s. if s = ''0'' then Some 0 else None)
     (empty_db\<lparr>videoViews := [\<lparr>videoView_id = 3, videoView_video = 10, videoView_user = 1,
        videoView_watchedAt = 50, videoView_watchTime = 120,
        videoView_completionPercentage = 40, videoView_lastPosition = 118\<rparr>]\<rparr>)
     \<lparr>user_id = 1, user_name = ''A'', user_role = Student, user_branch = ''CSE'',
       user_year = ''2nd'', user_isApproved = True\<rparr>
     (Some 10) (Str ''0'') Undefined Undefined 60)) =
   [\<lparr>videoView_id = 3, videoView_video = 10, videoView_user = 1, videoView_watchedAt = 60,
     videoView_watchTime = 0, videoView_completionPercentage = 40,
     videoView_lastPosition = 118\<rparr>] \<and>
   status_of (snd (recordView (\<lambda>s. if s = ''0'' then Some 0 else None)
     (empty_db\<lparr>videoViews := [\<lparr>videoView_id = 3, videoView_video = 10, videoView_user = 1,
        videoView_watchedAt = 50, videoView_watchTime = 120,
        videoView_completionPercentage = 40, videoView_lastPosition = 118\<rparr>]\<rparr>)
     \<lparr>user_id = 1, user_name = ''A'', user_role = Student, user_branch = ''CSE'',
       user_year = ''2nd'', user_isApproved = True\<rparr>
     (Some 10) (Str ''0'') Undefined Undefined 60)) = 200"
  by (simp add: recordView_def findOne_def Let_def)

text \<open>
  C5 (amended). When a view row of the pair (principal, video) is stored, each of
  watchTime, completionPercentage and lastPosition becomes \<open>input || old\<close> cast to a
  Number: an input that is falsy in JavaScript (absent, null, the number 0, the empty
  string, false) leaves the metric as it was; a number other than 0 replaces it by
  itself, \<open>true\<close> by 1 and a non-empty string \<open>s\<close> by \<open>Number(s)\<close>. When all three
  casts succeed, recordView answers 200 and the row found for the pair afterwards is
  the old row with these three metrics and the watched-at time set to the time of
  the call; when a non-empty string is not a number the request answers 500 and the
  database is unchanged.
\<close>

theorem recordView_keeps_metrics:
  assumes "findOne (\<lambda>x. videoView_video x = vid \<and> videoView_user x = user_id u) (videoViews d)
             = Some view"
  shows "(case (metric_or Number_str w (videoView_watchTime view),
                metric_or Number_str c (videoView_completionPercentage view),
                metric_or Number_str l (videoView_lastPosition view)) of
            (Some w', Some c', Some l') \<Rightarrow>
              findOne (\<lambda>x. videoView_video x = vid \<and> videoView_user x = user_id u)
                (videoViews (fst (recordView Number_str d u (Some vid) w c l now))) =
              Some (view\<lparr>videoView_watchTime := w', videoView_completionPercentage := c',
                          videoView_lastPosition := l', videoView_watchedAt := now\<rparr>) \<and>
              status_of (snd (recordView Number_str d u (Some vid) w c l now)) = 200
          | _ \<Rightarrow>
              recordView Number_str d u (Some vid) w c l now =
                (d, Failure 500 ''VideoView validation failed'')) \<and>
         (\<forall>x k. \<not> truthy x \<longrightarrow> metric_or Number_str x k = Some k) \<and>
         (\<forall>j k. j \<noteq> 0 \<longrightarrow> metric_or Number_str (Num j) k = Some j) \<and>
         (\<forall>k. metric_or Number_str (Bool True) k = Some 1) \<and>
         (\<forall>s k. s \<noteq> [] \<longrightarrow> metric_or Number_str (Str s) k = Number_str s)"
proof -
  let ?q = "\<lambda>x. videoView_video x = vid \<and> videoView_user x = user_id u"
  have key: "?q view"
    using assms by (auto simp: findOne_def dest: find_Some_iff [THEN iffD1])
  have stored: "findOne ?q (videoViews (fst (recordView Number_str d u (Some vid) w c l now))) =
              Some (view\<lparr>videoView_watchTime := w', videoView_completionPercentage := c',
                          videoView_lastPosition := l', videoView_watchedAt := now\<rparr>) \<and>
              status_of (snd (recordView Number_str d u (Some vid) w c l now)) = 200"
    if "metric_or Number_str w (videoView_watchTime view) = Some w'"
      and "metric_or Number_str c (videoView_completionPercentage view) = Some c'"
      and "metric_or Number_str l (videoView_lastPosition view) = Some l'" for w' c' l'
  proof -
    let ?view1 = "view\<lparr>videoView_watchTime := w', videoView_completionPercentage := c',
                          videoView_lastPosition := l', videoView_watchedAt := now\<rparr>"
    have "?q ?view1"
      using key by simp
    with assms have "findOne ?q (updateOne (\<lambda>z. videoView_id z = videoView_id view) (\<lambda>_. ?view1)
        (videoViews d)) = Some ?view1"
      by (rule findOne_updateOne_same)
    then show ?thesis
      using assms that by (simp add: recordView_def Let_def)
  qed
  have failed: "recordView Number_str d u (Some vid) w c l now =
                (d, Failure 500 ''VideoView validation failed'')"
    if "metric_or Number_str w (videoView_watchTime view) = None \<or>
        metric_or Number_str c (videoView_completionPercentage view) = None \<or>
        metric_or Number_str l (videoView_lastPosition view) = None"
    using assms that by (auto simp: recordView_def split: option.splits)
  have first: "case (metric_or Number_str w (videoView_watchTime view),
                metric_or Number_str c (videoView_completionPercentage view),
                metric_or Number_str l (videoView_lastPosition view)) of
            (Some w', Some c', Some l') \<Rightarrow>
              findOne ?q (videoViews (fst (recordView Number_str d u (Some vid) w c l now))) =
              Some (view\<lparr>videoView_watchTime := w', videoView_completionPercentage := c',
                          videoView_lastPosition := l', videoView_watchedAt := now\<rparr>) \<and>
              status_of (snd (recordView Number_str d u (Some vid) w c l now)) = 200
          | _ \<Rightarrow>
              recordView Number_str d u (Some vid) w c l now =
                (d, Failure 500 ''VideoView validation failed'')"
    using stored failed by (auto split: option.splits)
  have falsy: "\<forall>x k. \<not> truthy x \<longrightarrow> metric_or Number_str x k = Some k"
    by (simp add: metric_or_falsy)
  show ?thesis
    using first falsy by simp
qed

theorem recordView_keeps_metrics_witness:
  "(let a = \<lparr>user_id = 1, user_name = ''A'', user_role = Student, user_branch = ''CSE'',
              user_year = ''2nd'', user_isApproved = True\<rparr>;
        row = \<lparr>videoView_id = 3, videoView_video = 10, videoView_user = 1,
                videoView_watchedAt = 50, videoView_watchTime = 120,
                videoView_completionPercentage = 40, videoView_lastPosition = 118\<rparr>;
        d = empty_db\<lparr>videoViews := [row]\<rparr>
    in videoViews (fst (recordView (\<lambda>s. None) d a (Some 10) (Num 0) Undefined (Num 200) 60)) =
         [\<lparr>videoView_id = 3, videoView_video = 10, videoView_user = 1,
           videoView_watchedAt = 60, videoView_watchTime = 120,
           videoView_completionPercentage = 40, videoView_lastPosition = 200\<rparr>] \<and>
       recordView (\<lambda>s. None) d a (Some 10) (Str ''soon'') Undefined Undefined 60 =
         (d, Failure 500 ''VideoView validation failed''))"
proof -
  let ?a = "\<lparr>user_id = 1, user_name = ''A'', user_role = Student, user_branch = ''CSE'',
              user_year = ''2nd'', user_isApproved = True\<rparr>"
  let ?row = "\<lparr>videoView_id = 3, videoView_video = 10, videoView_user = 1,
                videoView_watchedAt = 50, videoView_watchTime = 120,
                videoView_completionPercentage = 40, videoView_lastPosition = 118\<rparr>"
  let ?d = "empty_db\<lparr>videoViews := [?row]\<rparr>"
  let ?N = "\<lambda>s::string. None :: int option"
  have found: "findOne (\<lambda>x. videoView_video x = 10 \<and> videoView_user x = user_id ?a)
                 (videoViews ?d) = Some ?row"
    by (simp add: findOne_def)
  have one: "length (videoViews (fst (recordView ?N ?d ?a (Some 10) (Num 0) Undefined
               (Num 200) 60))) = 1"
    by (simp add: recordView_def findOne_def Let_def)
  have ok: "videoViews (fst (recordView ?N ?d ?a (Some 10) (Num 0) Undefined (Num 200) 60)) =
         [\<lparr>videoView_id = 3, videoView_video = 10, videoView_user = 1,
           videoView_watchedAt = 60, videoView_watchTime = 120,
           videoView_completionPercentage = 40, videoView_lastPosition = 200\<rparr>]"
    using recordView_keeps_metrics [OF found, of ?N "Num 0" Undefined "Num 200" 60] one
    by (auto simp: findOne_def length_Suc_conv split: if_splits)
  have bad: "recordView ?N ?d ?a (Some 10) (Str ''soon'') Undefined Undefined 60 =
         (?d, Failure 500 ''VideoView validation failed'')"
    using recordView_keeps_metrics [OF found, of ?N "Str ''soon''" Undefined Undefined 60]
    by simp
  show ?thesis
    using ok bad by (simp add: Let_def)
qed

section \<open>deleteComment\<close>

lemma deleteOne_distinct:
  assumes "distinct (map ident xs)"
  shows "deleteOne (\<lambda>x. ident x = i) xs = filter (\<lambda>x. ident x \<noteq> i) xs"
  using assms
proof (induction xs)
  case Nil
  then show ?case by simp
next
  case (Cons a xs)
  show ?case
  proof (cases "ident a = i")
    case True
    with Cons.prems have "i \<notin> ident ` set xs"
      by simp
    then have "\<forall>x\<in>set xs. ident x \<noteq> i"
      by blast
    then have "filter (\<lambda>x. ident x \<noteq> i) xs = xs"
      by (simp add: filter_id_conv)
    with True show ?thesis by simp
  next
    case False
    with Cons show ?thesis by simp
  qed
qed

lemma findById_ident: "findById ident xs i = Some x \<Longrightarrow> ident x = i \<and> x \<in> set xs"
  by (auto simp: findById_def find_Some_iff)

text \<open>
  C6. Let \<open>t\<close> be a stored comment, in a collection whose ids are distinct. Called by
  anyone who is neither the comment's author nor an admin, deleteComment answers 403
  and deletes nothing, whether \<open>t\<close> is a top-level comment or a reply. Called by the
  author or by an admin, it answers 200; when \<open>t\<close> is a top-level comment (parent
  reference null) it leaves exactly the comments that are neither \<open>t\<close> nor have \<open>t\<close>
  as their parent reference, and when \<open>t\<close> is a reply it leaves exactly the comments
  other than \<open>t\<close>.
\<close>

theorem deleteComment_cascade:
  assumes "findById comment_id (comments d) t = Some c"
    and "distinct (map comment_id (comments d))"
  shows "deleteComment d u t =
           (if comment_user c = user_id u \<or> user_role u = Admin
            then (d\<lparr>comments :=
                      (if comment_parentComment c = None
                       then filter (\<lambda>x. comment_id x \<noteq> t \<and> comment_parentComment x \<noteq> Some t)
                              (comments d)
                       else filter (\<lambda>x. comment_id x \<noteq> t) (comments d))\<rparr>,
                  Success 200 ''Comment deleted'')
            else (d, Failure 403 ''Not authorized''))"
proof -
  have id: "comment_id c = t"
    using assms(1) by (simp add: findById_ident)
  have reply: "deleteOne (\<lambda>x. comment_id x = t) (comments d) =
               filter (\<lambda>x. comment_id x \<noteq> t) (comments d)"
    using assms(2) by (rule deleteOne_distinct)
  have "distinct (map comment_id (filter (\<lambda>x. comment_parentComment x \<noteq> Some t) (comments d)))"
    using assms(2) by (rule distinct_map_filter)
  then have "deleteOne (\<lambda>x. comment_id x = t)
               (filter (\<lambda>x. comment_parentComment x \<noteq> Some t) (comments d)) =
             filter (\<lambda>x. comment_id x \<noteq> t)
               (filter (\<lambda>x. comment_parentComment x \<noteq> Some t) (comments d))"
    by (rule deleteOne_distinct)
  also have "\<dots> = filter (\<lambda>x. comment_id x \<noteq> t \<and> comment_parentComment x \<noteq> Some t) (comments d)"
    by (simp add: conj_commute)
  finally show ?thesis
    using assms(1) id reply by (simp add: deleteComment_def Let_def)
qed

theorem deleteComment_cascade_witness:
  "(let author = \<lparr>user_id = 1, user_name = ''A'', user_role = Student, user_branch = ''CSE'',
                   user_year = ''2nd'', user_isApproved = True\<rparr>;
        other = \<lparr>user_id = 2, user_name = ''B'', user_role = Student, user_branch = ''CSE'',
                  user_year = ''2nd'', user_isApproved = True\<rparr>;
        top = \<lparr>comment_id = 20, comment_content = ''top'', comment_user = 1, comment_video = 10,
                comment_parentComment = None\<rparr>;
        reply = (\<lambda>i. \<lparr>comment_id = i, comment_content = ''re'', comment_user = 2,
                        comment_video = 10, comment_parentComment = Some 20\<rparr>);
        d = empty_db\<lparr>comments := [top, reply 21, reply 22, reply 23]\<rparr>
    in comments (fst (deleteComment d author 20)) = [] \<and>
       snd (deleteComment d author 20) = Success 200 ''Comment deleted'' \<and>
       deleteComment d other 20 = (d, Failure 403 ''Not authorized'') \<and>
       deleteComment d author 22 = (d, Failure 403 ''Not authorized'') \<and>
       comments (fst (deleteComment d other 22)) = [top, reply 21, reply 23])"
proof -
  let ?author = "\<lparr>user_id = 1, user_name = ''A'', user_role = Student, user_branch = ''CSE'',
                   user_year = ''2nd'', user_isApproved = True\<rparr>"
  let ?other = "\<lparr>user_id = 2, user_name = ''B'', user_role = Student, user_branch = ''CSE'',
                  user_year = ''2nd'', user_isApproved = True\<rparr>"
  let ?top = "\<lparr>comment_id = 20, comment_content = ''top'', comment_user = 1, comment_video = 10,
                comment_parentComment = None\<rparr>"
  let ?reply = "\<lambda>i. \<lparr>comment_id = i, comment_content = ''re'', comment_user = 2,
                        comment_video = 10, comment_parentComment = Some 20\<rparr>"
  let ?d = "empty_db\<lparr>comments := [?top, ?reply 21, ?reply 22, ?reply 23]\<rparr>"
  have 1: "findById comment_id (comments ?d) 20 = Some ?top"
    by (simp add: findById_def)
  have 2: "findById comment_id (comments ?d) 22 = Some (?reply 22)"
    by (simp add: findById_def)
  have 3: "distinct (map comment_id (comments ?d))"
    by simp
  show ?thesis
    using deleteComment_cascade [OF 1 3, of ?author] deleteComment_cascade [OF 1 3, of ?other]
      deleteComment_cascade [OF 2 3, of ?author] deleteComment_cascade [OF 2 3, of ?other]
    by (simp add: Let_def)
qed

section \<open>Reports\<close>

text \<open>
  C7 (counterexample). Report 30 is stored with status reviewed. An admin's PUT with
  status pending answers 200 and the stored status is pending again: a transition out
  of reviewed that is not a cancellation, and not one of the specification's two.
\<close>

theorem report_transition_counterexample:
  "\<not> spec_transition ''reviewed'' ''pending'' \<and>
   reports (fst (put_report
     (empty_db\<lparr>reports := [\<lparr>report_id = 30, report_comment = 20, report_user = 2,
        report_reason = ''spam'', report_details = None, report_status = ''reviewed''\<rparr>]\<rparr>)
     \<lparr>user_id = 9, user_name = ''R'', user_role = Admin, user_branch = '''', user_year = '''',
       user_isApproved = True\<rparr>
     30 (Some ''pending''))) =
   [\<lparr>report_id = 30, report_comment = 20, report_user = 2, report_reason = ''spam'',
     report_details = None, report_status = ''pending''\<rparr>] \<and>
   status_of (snd (put_report
     (empty_db\<lparr>reports := [\<lparr>report_id = 30, report_comment = 20, report_user = 2,
        report_reason = ''spam'', report_details = None, report_status = ''reviewed''\<rparr>]\<rparr>)
     \<lparr>user_id = 9, user_name = ''R'', user_role = Admin, user_branch = '''', user_year = '''',
       user_isApproved = True\<rparr>
     30 (Some ''pending''))) = 200"
  by (simp add: spec_transition_def put_report_def authorize_def updateReportStatus_def
      findById_def)

text \<open>
  C7 (amended). For a stored report \<open>r\<close>, whatever its current status: the PUT of an
  admin with a status \<open>s\<close> among pending, reviewed and ignored answers 200 and the
  report then has status \<open>s\<close>; the PUT of anyone who is not an admin answers 403 and
  changes nothing; and when \<open>r\<close> is the report found for its (comment, user) pair,
  cancelReport by that user answers 200 and removes \<open>r\<close> (ids being distinct, no
  report with \<open>r\<close>'s id is left).
\<close>

theorem report_status_changes:
  assumes "findById report_id (reports d) rid = Some r"
    and "distinct (map report_id (reports d))"
  shows "(user_role a = Admin \<and> s \<in> set [''pending'', ''reviewed'', ''ignored''] \<longrightarrow>
            snd (put_report d a rid (Some s)) = Success 200 (r\<lparr>report_status := s\<rparr>) \<and>
            findById report_id (reports (fst (put_report d a rid (Some s)))) rid
              = Some (r\<lparr>report_status := s\<rparr>)) \<and>
         (user_role a \<noteq> Admin \<longrightarrow>
            fst (put_report d a rid (Some s)) = d \<and>
            status_of (snd (put_report d a rid (Some s))) = 403) \<and>
         (findOne (\<lambda>x. report_comment x = report_comment r \<and> report_user x = user_id p) (reports d)
            = Some r \<longrightarrow>
            snd (cancelReport d p (report_comment r)) = Success 200 ''Report successfully canceled'' \<and>
            reports (fst (cancelReport d p (report_comment r))) =
              filter (\<lambda>x. report_id x \<noteq> rid) (reports d) \<and>
            findById report_id (reports (fst (cancelReport d p (report_comment r)))) rid = None)"
proof -
  have id: "report_id r = rid"
    using assms(1) by (simp add: findById_ident)
  have upd: "findById report_id
               (updateOne (\<lambda>x. report_id x = rid) (\<lambda>x. x\<lparr>report_status := s\<rparr>) (reports d)) rid
             = Some (r\<lparr>report_status := s\<rparr>)"
    using assms(1) by (simp add: findById_updateOne)
  have admin: "snd (put_report d a rid (Some s)) = Success 200 (r\<lparr>report_status := s\<rparr>) \<and>
            findById report_id (reports (fst (put_report d a rid (Some s)))) rid
              = Some (r\<lparr>report_status := s\<rparr>)"
    if "user_role a = Admin" and "s \<in> set [''pending'', ''reviewed'', ''ignored'']"
    using that assms(1) upd
    by (auto simp: put_report_def authorize_def updateReportStatus_def)
  have other: "fst (put_report d a rid (Some s)) = d \<and>
            status_of (snd (put_report d a rid (Some s))) = 403"
    if "user_role a \<noteq> Admin"
    using that by (simp add: put_report_def authorize_def)
  have del: "deleteOne (\<lambda>x. report_id x = rid) (reports d) =
             filter (\<lambda>x. report_id x \<noteq> rid) (reports d)"
    using assms(2) by (rule deleteOne_distinct)
  have gone: "findById report_id (filter (\<lambda>x. report_id x \<noteq> rid) (reports d)) rid = None"
    by (simp add: findById_def find_None_iff)
  have cancel: "snd (cancelReport d p (report_comment r)) = Success 200 ''Report successfully canceled'' \<and>
            reports (fst (cancelReport d p (report_comment r))) =
              filter (\<lambda>x. report_id x \<noteq> rid) (reports d) \<and>
            findById report_id (reports (fst (cancelReport d p (report_comment r)))) rid = None"
    if "findOne (\<lambda>x. report_comment x = report_comment r \<and> report_user x = user_id p) (reports d)
            = Some r"
    using that id del gone by (simp add: cancelReport_def)
  show ?thesis
    using admin other cancel by blast
qed

theorem report_status_changes_witness:
  "(let r = \<lparr>report_id = 30, report_comment = 20, report_user = 2, report_reason = ''spam'',
              report_details = None, report_status = ''ignored''\<rparr>;
        d = empty_db\<lparr>reports := [r]\<rparr>;
        adm = \<lparr>user_id = 9, user_name = ''R'', user_role = Admin, user_branch = '''',
                user_year = '''', user_isApproved = True\<rparr>;
        reporter = \<lparr>user_id = 2, user_name = ''B'', user_role = Student, user_branch = ''CSE'',
                     user_year = ''2nd'', user_isApproved = True\<rparr>
    in snd (put_report d adm 30 (Some ''reviewed'')) = Success 200 (r\<lparr>report_status := ''reviewed''\<rparr>) \<and>
       status_of (snd (put_report d reporter 30 (Some ''reviewed''))) = 403 \<and>
       reports (fst (cancelReport d reporter 20)) = [])"
proof -
  let ?r = "\<lparr>report_id = 30, report_comment = 20, report_user = 2, report_reason = ''spam'',
              report_details = None, report_status = ''ignored''\<rparr>"
  let ?d = "empty_db\<lparr>reports := [?r]\<rparr>"
  let ?adm = "\<lparr>user_id = 9, user_name = ''R'', user_role = Admin, user_branch = '''',
                user_year = '''', user_isApproved = True\<rparr>"
  let ?reporter = "\<lparr>user_id = 2, user_name = ''B'', user_role = Student, user_branch = ''CSE'',
                     user_year = ''2nd'', user_isApproved = True\<rparr>"
  have 1: "findById report_id (reports ?d) 30 = Some ?r"
    by (simp add: findById_def)
  have 2: "distinct (map report_id (reports ?d))"
    by simp
  show ?thesis
    using report_status_changes [OF 1 2, of ?adm "''reviewed''" ?reporter]
      report_status_changes [OF 1 2, of ?reporter "''reviewed''" ?reporter]
    by (simp add: Let_def findOne_def)
qed

text \<open>
  C8. Let the referenced comment be stored. When the caller authored it, createReport
  answers 400 and stores nothing, whatever the reason and the details; with a reason
  given, the error is "You cannot report your own comment". When the caller did not
  author it, a reason is given and a report of the caller on this comment is stored,
  createReport answers 400 "You have already reported this comment" and stores
  nothing.
\<close>

theorem createReport_rejections:
  assumes "findById comment_id (comments d) cid = Some c"
  shows "(comment_user c = user_id u \<longrightarrow>
            fst (createReport d u (Some cid) reason details) = d \<and>
            status_of (snd (createReport d u (Some cid) reason details)) = 400 \<and>
            (\<not> falsy_str reason \<longrightarrow>
               snd (createReport d u (Some cid) reason details) =
                 Failure 400 ''You cannot report your own comment'')) \<and>
         (comment_user c \<noteq> user_id u \<and> \<not> falsy_str reason \<and>
          list_ex (\<lambda>r. report_comment r = cid \<and> report_user r = user_id u) (reports d) \<longrightarrow>
            createReport d u (Some cid) reason details =
              (d, Failure 400 ''You have already reported this comment''))"
proof -
  have dup: "findOne (\<lambda>r. report_comment r = cid \<and> report_user r = user_id u) (reports d) \<noteq> None"
    if "list_ex (\<lambda>r. report_comment r = cid \<and> report_user r = user_id u) (reports d)"
    using that by (simp add: findOne_None_iff)
  show ?thesis
    using assms dup by (auto simp: createReport_def falsy_str_def split: option.splits)
qed

theorem createReport_rejections_witness:
  "(let c = \<lparr>comment_id = 20, comment_content = ''top'', comment_user = 1, comment_video = 10,
              comment_parentComment = None\<rparr>;
        r = \<lparr>report_id = 30, report_comment = 20, report_user = 2, report_reason = ''spam'',
              report_details = None, report_status = ''pending''\<rparr>;
        d = empty_db\<lparr>comments := [c], reports := [r]\<rparr>;
        author = \<lparr>user_id = 1, user_name = ''A'', user_role = Student, user_branch = ''CSE'',
                   user_year = ''2nd'', user_isApproved = True\<rparr>;
        reporter = \<lparr>user_id = 2, user_name = ''B'', user_role = Student, user_branch = ''CSE'',
                     user_year = ''2nd'', user_isApproved = True\<rparr>
    in createReport d author (Some 20) (Some ''spam'') None =
         (d, Failure 400 ''You cannot report your own comment'') \<and>
       createReport d reporter (Some 20) (Some ''harassment'') None =
         (d, Failure 400 ''You have already reported this comment''))"
proof -
  let ?c = "\<lparr>comment_id = 20, comment_content = ''top'', comment_user = 1, comment_video = 10,
              comment_parentComment = None\<rparr>"
  let ?r = "\<lparr>report_id = 30, report_comment = 20, report_user = 2, report_reason = ''spam'',
              report_details = None, report_status = ''pending''\<rparr>"
  let ?d = "empty_db\<lparr>comments := [?c], reports := [?r]\<rparr>"
  let ?author = "\<lparr>user_id = 1, user_name = ''A'', user_role = Student, user_branch = ''CSE'',
                   user_year = ''2nd'', user_isApproved = True\<rparr>"
  let ?reporter = "\<lparr>user_id = 2, user_name = ''B'', user_role = Student, user_branch = ''CSE'',
                     user_year = ''2nd'', user_isApproved = True\<rparr>"
  have 1: "findById comment_id (comments ?d) 20 = Some ?c"
    by (simp add: findById_def)
  have a: "fst (createReport ?d ?author (Some 20) (Some ''spam'') None) = ?d"
    using createReport_rejections [OF 1, of ?author "Some ''spam''" None] by simp
  have b: "snd (createReport ?d ?author (Some 20) (Some ''spam'') None) =
             Failure 400 ''You cannot report your own comment''"
    using createReport_rejections [OF 1, of ?author "Some ''spam''" None]
    by (simp add: falsy_str_def)
  have c: "createReport ?d ?reporter (Some 20) (Some ''harassment'') None =
             (?d, Failure 400 ''You have already reported this comment'')"
    using createReport_rejections [OF 1, of ?reporter "Some ''harassment''" None]
    by (simp add: falsy_str_def)
  show ?thesis
    using a b c by (simp add: Let_def prod_eq_iff)
qed

section \<open>createNotice\<close>

lemma createNotice_notifications:
  "notifications (fst (createNotice d u b files)) = notifications d"
  by (auto simp: createNotice_def Notice_create_def Let_def split: option.splits if_splits)

text \<open>
  C9. Student 1 is an approved student of branch CSE, year 2nd; student 3 is of
  branch ECE. Teacher 5 creates a notice for branch CSE, year 2nd: createNotice
  answers 201, the notice is stored, and no Notification is stored, for student 1 or
  anyone else. The same request with year "All" is refused with 400 and stores neither
  a notice nor a notification. The helper createNotifications, had it been called on
  the stored notice, would have addressed students 1 and 3 alike.
\<close>

theorem createNotice_sends_nothing:
  "(let s1 = \<lparr>user_id = 1, user_name = ''S'', user_role = Student, user_branch = ''CSE'',
               user_year = ''2nd'', user_isApproved = True\<rparr>;
        s3 = \<lparr>user_id = 3, user_name = ''E'', user_role = Student, user_branch = ''ECE'',
               user_year = ''2nd'', user_isApproved = True\<rparr>;
        t5 = \<lparr>user_id = 5, user_name = ''T'', user_role = Teacher, user_branch = '''',
               user_year = '''', user_isApproved = True\<rparr>;
        d = empty_db\<lparr>users := [s1, s3, t5]\<rparr>;
        b = \<lparr>body_title = Some ''Exam'', body_content = Some ''Room 4'',
              body_category = Some ''Academic'', body_branch = Some ''CSE'',
              body_year = Some ''2nd'', body_priority = Some ''normal'',
              body_expirationType = Some ''duration'', body_expirationDate = None,
              body_expirationDuration = Some ''7 days''\<rparr>
    in status_of (snd (createNotice d t5 b [])) = 201 \<and>
       map notice_title (notices (fst (createNotice d t5 b []))) = [''Exam''] \<and>
       notifications (fst (createNotice d t5 b [])) = [] \<and>
       createNotice d t5 (b\<lparr>body_year := Some ''All''\<rparr>) [] =
         (d, Failure 400 ''Please select specific branch and year'') \<and>
       (case createNotice d t5 b [] of
          (d1, Success c n) \<Rightarrow>
            map notification_recipient (notifications (createNotifications d1 n)) = [1, 3]
        | (d1, Failure c e) \<Rightarrow> False))"
  by (simp add: createNotice_def Notice_create_def falsy_str_def str_of_def trim_def is_space_def
      Let_def empty_db_def createNotifications_def Notification_create_def
      notification_types_def)

end
